theory Spec2Isabelle
  imports Complex_Main
begin

section \<open>Prompt feature extractor: \<open>extractRoomInfo\<close> (utils/helpers.js)\<close>

text \<open>
  A prompt is a JavaScript string.  It is modelled as a \<^typ>\<open>string\<close> whose characters
  are the code units of the prompt in the range 0..255.  The character classes of the
  regular expressions are the ECMAScript ones restricted to that range:
  \<open>\d\<close> is \<open>[0-9]\<close>, \<open>\s\<close> is TAB, LF, VT, FF, CR, SPACE and NBSP, and \<open>\w\<close> is
  \<open>[A-Za-z0-9_]\<close>.
\<close>

definition isDigit :: "char \<Rightarrow> bool" where
  "isDigit c = (c \<in> set ''0123456789'')"

definition isSpace :: "char \<Rightarrow> bool" where
  "isSpace c = (c \<in> set [CHR 0x09, CHR 0x0A, CHR 0x0B, CHR 0x0C, CHR 0x0D, CHR 0x20, CHR 0xA0])"

definition isWordChar :: "char \<Rightarrow> bool" where
  "isWordChar c =
     (c \<in> set ''abcdefghijklmnopqrstuvwxyzABCDEFGHIJKLMNOPQRSTUVWXYZ0123456789_'')"

text \<open>
  The flag \<open>i\<close> compares canonicalised characters (upper case).  Every character of
  every pattern here is an ASCII letter or a space, and canonicalisation never maps a
  character outside ASCII into ASCII, so upper-casing the ASCII letters alone decides
  the same comparisons.  \<open>toLowerCase\<close> is applied by the source to captured number
  words only, which are ASCII letters.
\<close>

definition toUpperCase :: "char \<Rightarrow> char" where
  "toUpperCase c =
     (case map_of (zip ''abcdefghijklmnopqrstuvwxyz'' ''ABCDEFGHIJKLMNOPQRSTUVWXYZ'') c of
        Some u \<Rightarrow> u
      | None \<Rightarrow> c)"

definition toLowerCase :: "char \<Rightarrow> char" where
  "toLowerCase c =
     (case map_of (zip ''ABCDEFGHIJKLMNOPQRSTUVWXYZ'' ''abcdefghijklmnopqrstuvwxyz'') c of
        Some l \<Rightarrow> l
      | None \<Rightarrow> c)"

text \<open>A literal of a pattern matched at the front of the input; the rest is returned.\<close>

fun matchLiteral :: "string \<Rightarrow> string \<Rightarrow> string option" where
  "matchLiteral [] s = Some s"
| "matchLiteral (p # ps) [] = None"
| "matchLiteral (p # ps) (c # cs) =
     (if toUpperCase c = toUpperCase p then matchLiteral ps cs else None)"

text \<open>
  \<open>new RegExp(`(\\d+)\\s+${type}s?`, "i")\<close> tried at the front of \<open>s\<close>; the result is
  capture group 1.  \<open>\d+\<close> and \<open>\s+\<close> are greedy; giving back a digit leaves a digit
  where \<open>\s\<close> is wanted, and giving back a blank leaves a blank where the first letter of
  the room type is wanted, so backtracking finds nothing the greedy run does not.  The
  optional trailing \<open>s\<close> changes neither whether the pattern matches nor the capture.
\<close>

definition matchDigitsAt :: "string \<Rightarrow> string \<Rightarrow> string option" where
  "matchDigitsAt type s =
     (let ds = takeWhile isDigit s;
          r1 = dropWhile isDigit s
      in if ds = [] then None
         else if takeWhile isSpace r1 = [] then None
         else (case matchLiteral type (dropWhile isSpace r1) of
                 None \<Rightarrow> None
               | Some r2 \<Rightarrow> Some ds))"

text \<open>
  \<open>new RegExp(`(one|two|three|four|five)\\s+${type}s?`, "i")\<close> tried at the front of
  \<open>s\<close>: the alternatives in their order, each continued with the rest of the pattern.
  The capture is the text of the input that the number word matched.
\<close>

definition numberWords :: "string list" where
  "numberWords = [''one'', ''two'', ''three'', ''four'', ''five'']"

definition matchWordAt :: "string \<Rightarrow> string \<Rightarrow> string \<Rightarrow> string option" where
  "matchWordAt type s w =
     (case matchLiteral w s of
        None \<Rightarrow> None
      | Some r1 \<Rightarrow>
          if takeWhile isSpace r1 = [] then None
          else (case matchLiteral type (dropWhile isSpace r1) of
                  None \<Rightarrow> None
                | Some r2 \<Rightarrow> Some (take (length w) s)))"

fun firstSome :: "('a \<Rightarrow> 'b option) \<Rightarrow> 'a list \<Rightarrow> 'b option" where
  "firstSome f [] = None"
| "firstSome f (x # xs) = (case f x of Some y \<Rightarrow> Some y | None \<Rightarrow> firstSome f xs)"

definition matchWordsAt :: "string \<Rightarrow> string \<Rightarrow> string option" where
  "matchWordsAt type s = firstSome (matchWordAt type s) numberWords"

text \<open>
  \<open>prompt.match(pattern)\<close> without the flag \<open>g\<close>: the pattern is tried at index 0, 1, ...
  up to the length of the prompt, and the first index where it matches gives the result.
\<close>

fun searchFrom :: "(string \<Rightarrow> 'a option) \<Rightarrow> string \<Rightarrow> 'a option" where
  "searchFrom m [] = m []"
| "searchFrom m (c # cs) =
     (case m (c # cs) of Some r \<Rightarrow> Some r | None \<Rightarrow> searchFrom m cs)"

text \<open>
  The conversion of the capture: \<open>isNaN(count)\<close> is false on a run of digits and true on a
  number word (the only captures there are); \<open>textToNumber[...] || 1\<close> falls back to 1 on
  a missing entry and on a falsy one; \<open>parseInt(count, 10)\<close> reads the leading decimal
  digits.  Counts are natural numbers: the rounding of a JavaScript number beyond
  \<open>2^53\<close> is not modelled.
\<close>

definition isNaN :: "string \<Rightarrow> bool" where
  "isNaN count = (\<not> list_all isDigit count)"

definition textToNumber :: "(string \<times> nat) list" where
  "textToNumber = [(''one'', 1), (''two'', 2), (''three'', 3), (''four'', 4), (''five'', 5)]"

definition digitValue :: "char \<Rightarrow> nat" where
  "digitValue c = of_char c - 48"

definition parseInt :: "string \<Rightarrow> nat" where
  "parseInt count = foldl (\<lambda>acc c. 10 * acc + digitValue c) 0 (takeWhile isDigit count)"

definition convertCount :: "string \<Rightarrow> nat" where
  "convertCount count =
     (if isNaN count
      then (case map_of textToNumber (map toLowerCase count) of
              None \<Rightarrow> 1
            | Some n \<Rightarrow> if n = 0 then 1 else n)
      else parseInt count)"

text \<open>
  The loop over the two patterns: the first pattern that matches sets the count and
  breaks.
\<close>

definition patterns :: "(string \<Rightarrow> string \<Rightarrow> string option) list" where
  "patterns = [matchDigitsAt, matchWordsAt]"

definition numericCount :: "string \<Rightarrow> string \<Rightarrow> nat option" where
  "numericCount type prompt =
     map_option convertCount (firstSome (\<lambda>pattern. searchFrom (pattern type) prompt) patterns)"

text \<open>
  \<open>new RegExp(`\\b${type}\\b`, "i").test(prompt)\<close>.  A word boundary lies between two
  positions of which exactly one holds a word character; the ends of the input count as
  holding none.  \<open>prev\<close> is the character before the position tried.
\<close>

definition isWordAt :: "char option \<Rightarrow> bool" where
  "isWordAt c = (case c of None \<Rightarrow> False | Some x \<Rightarrow> isWordChar x)"

definition wordBoundary :: "char option \<Rightarrow> char option \<Rightarrow> bool" where
  "wordBoundary before after = (isWordAt before \<noteq> isWordAt after)"

definition headOpt :: "string \<Rightarrow> char option" where
  "headOpt s = (case s of [] \<Rightarrow> None | c # cs \<Rightarrow> Some c)"

definition lastOpt :: "char option \<Rightarrow> string \<Rightarrow> char option" where
  "lastOpt prev s = (if s = [] then prev else Some (last s))"

definition matchBareAt :: "char option \<Rightarrow> string \<Rightarrow> string \<Rightarrow> bool" where
  "matchBareAt prev type s =
     (wordBoundary prev (headOpt s) \<and>
      (case matchLiteral type s of
         None \<Rightarrow> False
       | Some r \<Rightarrow> wordBoundary (lastOpt prev (take (length type) s)) (headOpt r)))"

fun testBare :: "char option \<Rightarrow> string \<Rightarrow> string \<Rightarrow> bool" where
  "testBare prev type [] = matchBareAt prev type []"
| "testBare prev type (c # cs) =
     (matchBareAt prev type (c # cs) \<or> testBare (Some c) type cs)"

text \<open>
  The result object is a map from room type to count.  \<open>!result[type]\<close> holds when the
  entry is missing and when it is the number 0.
\<close>

definition roomTypes :: "string list" where
  "roomTypes = [''bedroom'', ''bathroom'', ''kitchen'', ''living room'', ''dining room'',
                ''office'', ''studio'', ''balcony'', ''patio'', ''garage'']"

definition falsy :: "nat option \<Rightarrow> bool" where
  "falsy v = (case v of None \<Rightarrow> True | Some n \<Rightarrow> n = 0)"

definition roomTypeStep :: "string \<Rightarrow> (string \<rightharpoonup> nat) \<Rightarrow> string \<Rightarrow> (string \<rightharpoonup> nat)" where
  "roomTypeStep prompt result type =
     (let result1 = (case numericCount type prompt of
                       Some n \<Rightarrow> result(type \<mapsto> n)
                     | None \<Rightarrow> result)
      in if falsy (result1 type) \<and> testBare None type prompt
         then result1(type \<mapsto> 1)
         else result1)"

definition extractRoomInfo :: "string \<Rightarrow> (string \<rightharpoonup> nat)" where
  "extractRoomInfo prompt =
     (if prompt = [] then Map.empty
      else foldl (roomTypeStep prompt) Map.empty roomTypes)"


section \<open>Generation/persistence coordinator: the hook \<open>useFloorPlan\<close>\<close>

subsection \<open>Data\<close>

text \<open>
  JavaScript numbers are modelled as \<^typ>\<open>int\<close> where the source uses whole numbers and
  as \<^typ>\<open>real\<close> elsewhere; \<open>NaN\<close> and rounding are not modelled.  A missing property
  (\<open>undefined\<close>) is \<open>None\<close>.
\<close>

record parameters =
  numInferenceSteps :: int
  guidanceScale :: real
  seed :: int

record floorPlan =
  plan_id :: string
  prompt :: string
  imageUrl :: string
  createdAt :: string
  parameters :: parameters
  generationTime :: real
  name :: "string option"

text \<open>The second argument of \<open>generateFloorPlan\<close>; every property is optional.\<close>

record options =
  opt_numInferenceSteps :: "int option"
  opt_guidanceScale :: "real option"
  opt_seed :: "int option"

text \<open>
  What \<open>apiService.generateFloorPlan\<close> resolves with: an object with the properties
  \<open>id\<close>, \<open>prompt\<close> and \<open>imageUrl\<close>, and optionally \<open>createdAt\<close>, \<open>parameters\<close> and
  \<open>generationTime\<close>.  \<open>Rejected\<close> stands for every way the awaited call throws:
  \<open>fetch\<close> failing, a response that cannot be decoded, a status that is not ok.
\<close>

record response =
  r_id :: string
  r_prompt :: string
  r_imageUrl :: string
  r_createdAt :: "string option"
  r_parameters :: "parameters option"
  r_generationTime :: "real option"

datatype generateOutcome = Resolved response | Rejected

text \<open>
  What \<open>apiService.getFloorPlans\<close> does: it throws (\<open>ListRejected\<close>), or it resolves
  with a value \<open>data\<close>.  \<open>ListResolved (Some ps)\<close> is a \<open>data\<close> whose property
  \<open>floorPlans\<close> is the array \<open>ps\<close>; \<open>ListResolved None\<close> is every other value (a falsy
  \<open>data\<close>, a missing or falsy \<open>floorPlans\<close>, a \<open>floorPlans\<close> that is not an array).
\<close>

datatype listOutcome = ListResolved "floorPlan list option" | ListRejected

text \<open>
  The text stored in \<open>localStorage\<close> under the key \<open>"floorPlans"\<close>, up to what
  \<open>JSON.parse\<close> makes of it:
  \<^item> \<open>Serialized ps\<close>: a JSON text that decodes to the array of plans \<open>ps\<close>; it is what
    \<open>JSON.stringify(floorPlans)\<close> writes;
  \<^item> \<open>EmptyText\<close>: the empty text, a falsy string;
  \<^item> \<open>Malformed\<close>: a text that is not JSON, on which \<open>JSON.parse\<close> throws a
    \<open>SyntaxError\<close> (such as a text cut off in the middle).

  A missing key (\<open>getItem\<close> returns \<open>null\<close>) is \<open>None\<close> in the state below.

  A text that is valid JSON but does not decode to an array of plans (such as \<open>{}\<close> or
  \<open>null\<close>) has no representative: \<open>JSON.parse\<close> does not throw on it,
  \<open>setFloorPlans\<close> installs the decoded value, and the collection is then no list of
  plans, which the type of \<open>floorPlans\<close> in the state excludes.  The hook itself never
  writes such a text.  A failing \<open>setItem\<close> (quota) is not modelled.
\<close>

datatype storedItem = Serialized "floorPlan list" | EmptyText | Malformed

datatype exn = SyntaxError | ApiError

text \<open>
  The environment of one call: \<open>process.env.NODE_ENV === "development"\<close>,
  \<open>new Date().toISOString()\<close>, \<open>Date.now().toString()\<close> and
  \<open>Math.floor(Math.random() * 1000000)\<close>.
\<close>

record env =
  devMode :: bool
  nowIso :: string
  nowMs :: string
  randomSeed :: int

text \<open>
  The state of the hook (its five \<open>useState\<close> cells), the \<open>localStorage\<close> item, the
  log of the calls made to \<open>apiService.generateFloorPlan\<close>, and whether
  \<open>setFloorPlans\<close> has been called since the mirror effect last ran (the effect
  depends on \<open>[floorPlans]\<close>, and every call of \<open>setFloorPlans\<close> in the source installs
  a new array).
\<close>

record state =
  floorPlans :: "floorPlan list"
  currentPlan :: "floorPlan option"
  isLoading :: bool
  isGenerating :: bool
  error :: "string option"
  storage :: "storedItem option"
  generateCalls :: "(string \<times> options) list"
  plansChanged :: bool

definition initialState :: "storedItem option \<Rightarrow> state" where
  "initialState stored =
     \<lparr>floorPlans = [], currentPlan = None, isLoading = False, isGenerating = False,
      error = None, storage = stored, generateCalls = [], plansChanged = False\<rparr>"

subsection \<open>The mirror effect\<close>

definition setFloorPlans :: "floorPlan list \<Rightarrow> state \<Rightarrow> state" where
  "setFloorPlans ps st = st\<lparr>floorPlans := ps, plansChanged := True\<rparr>"

text \<open>
  \<open>useEffect(() => { if (floorPlans.length > 0) localStorage.setItem(...) }, [floorPlans])\<close>,
  run after an operation has returned.
\<close>

definition mirrorEffect :: "state \<Rightarrow> state" where
  "mirrorEffect st =
     (if plansChanged st
      then (if length (floorPlans st) > 0
            then st\<lparr>storage := Some (Serialized (floorPlans st)), plansChanged := False\<rparr>
            else st\<lparr>plansChanged := False\<rparr>)
      else st)"

subsection \<open>\<open>loadFloorPlans\<close>\<close>

definition loadFailedMessage :: string where
  "loadFailedMessage =
     ''Failed to load floor plans from server. Using locally saved plans instead.''"

text \<open>
  \<open>const savedPlans = localStorage.getItem("floorPlans");
  if (savedPlans) { setFloorPlans(JSON.parse(savedPlans)); }\<close>
  An exception is returned with the state in which it was thrown.
\<close>

definition loadSaved :: "state \<Rightarrow> (exn \<times> state) + state" where
  "loadSaved st =
     (case storage st of
        None \<Rightarrow> Inr st
      | Some EmptyText \<Rightarrow> Inr st
      | Some Malformed \<Rightarrow> Inl (SyntaxError, st)
      | Some (Serialized ps) \<Rightarrow> Inr (setFloorPlans ps st))"

definition loadTry :: "listOutcome \<Rightarrow> state \<Rightarrow> (exn \<times> state) + state" where
  "loadTry outcome st =
     (let st1 = st\<lparr>isLoading := True\<rparr>;
          st2 = st1\<lparr>error := None\<rparr>
      in case outcome of
           ListRejected \<Rightarrow> Inl (ApiError, st2)
         | ListResolved (Some ps) \<Rightarrow> Inr (setFloorPlans ps st2)
         | ListResolved None \<Rightarrow> loadSaved st2)"

definition loadCatch :: "state \<Rightarrow> (exn \<times> state) + state" where
  "loadCatch st =
     (case loadSaved st of
        Inl thrown \<Rightarrow> Inl thrown
      | Inr st1 \<Rightarrow> Inr (st1\<lparr>error := Some loadFailedMessage\<rparr>))"

text \<open>
  \<open>try { ... } catch (err) { ... } finally { setIsLoading(false) }\<close>: an exception of
  the \<open>try\<close> block runs the handler; an exception of the handler leaves the function
  after the \<open>finally\<close> block.  The first component of the result is the exception that
  leaves \<open>loadFloorPlans\<close>, if any.
\<close>

definition loadFloorPlans :: "listOutcome \<Rightarrow> state \<Rightarrow> exn option \<times> state" where
  "loadFloorPlans outcome st =
     (let handled = (case loadTry outcome st of
                       Inl (e, st1) \<Rightarrow> loadCatch st1
                     | Inr st1 \<Rightarrow> Inr st1)
      in case handled of
           Inl (e, st2) \<Rightarrow> (Some e, st2\<lparr>isLoading := False\<rparr>)
         | Inr st2 \<Rightarrow> (None, st2\<lparr>isLoading := False\<rparr>))"

subsection \<open>\<open>generateFloorPlan\<close>\<close>

text \<open>\<open>String.prototype.trim\<close> removes white space and line terminators at both ends.\<close>

definition trim :: "string \<Rightarrow> string" where
  "trim s = rev (dropWhile isSpace (rev (dropWhile isSpace s)))"

definition emptyPromptMessage :: string where
  "emptyPromptMessage = ''Please enter a description for your floor plan''"

definition generateFailedMessage :: string where
  "generateFailedMessage = ''Failed to generate floor plan. Please try again.''"

text \<open>\<open>x || d\<close> on an optional number and on an optional string.\<close>

definition orNumber :: "'a::zero option \<Rightarrow> 'a \<Rightarrow> 'a" where
  "orNumber x d = (case x of None \<Rightarrow> d | Some v \<Rightarrow> if v = 0 then d else v)"

definition orString :: "string option \<Rightarrow> string \<Rightarrow> string" where
  "orString x d = (case x of None \<Rightarrow> d | Some v \<Rightarrow> if v = [] then d else v)"

definition defaultParameters :: "env \<Rightarrow> options \<Rightarrow> parameters" where
  "defaultParameters e opts =
     \<lparr>numInferenceSteps = orNumber (opt_numInferenceSteps opts) 50,
      guidanceScale = orNumber (opt_guidanceScale opts) 7.5,
      seed = orNumber (opt_seed opts) (randomSeed e)\<rparr>"

definition newFloorPlan :: "env \<Rightarrow> options \<Rightarrow> response \<Rightarrow> floorPlan" where
  "newFloorPlan e opts data =
     \<lparr>plan_id = r_id data,
      prompt = r_prompt data,
      imageUrl = r_imageUrl data,
      createdAt = orString (r_createdAt data) (nowIso e),
      parameters = (case r_parameters data of
                      Some ps \<Rightarrow> ps
                    | None \<Rightarrow> defaultParameters e opts),
      generationTime = orNumber (r_generationTime data) 0,
      name = None\<rparr>"

definition demoFloorPlan :: "env \<Rightarrow> string \<Rightarrow> options \<Rightarrow> floorPlan" where
  "demoFloorPlan e p opts =
     \<lparr>plan_id = nowMs e,
      prompt = p,
      imageUrl = ''https://placehold.co/600x600/e2e8f0/1e293b?text=Floor+Plan'',
      createdAt = nowIso e,
      parameters = defaultParameters e opts,
      generationTime = 1.5,
      name = None\<rparr>"

text \<open>\<open>setCurrentPlan(p); setFloorPlans((prev) => [p, ...prev])\<close>\<close>

definition adoptNew :: "floorPlan \<Rightarrow> state \<Rightarrow> state" where
  "adoptNew p st =
     (let st1 = st\<lparr>currentPlan := Some p\<rparr>
      in setFloorPlans (p # floorPlans st1) st1)"

text \<open>
  \<open>remote\<close> is \<open>apiService.generateFloorPlan\<close>; the call is appended to
  \<open>generateCalls\<close>.  The result is the returned plan (\<open>None\<close> for \<open>null\<close>) and the
  state after the \<open>finally\<close> block.
\<close>

definition generateFloorPlan ::
  "(string \<Rightarrow> options \<Rightarrow> generateOutcome) \<Rightarrow> env \<Rightarrow> string \<Rightarrow> options \<Rightarrow> state
     \<Rightarrow> floorPlan option \<times> state" where
  "generateFloorPlan remote e p opts st =
     (if trim p = [] then (None, st\<lparr>error := Some emptyPromptMessage\<rparr>)
      else
        let st1 = st\<lparr>isGenerating := True\<rparr>;
            st2 = st1\<lparr>error := None\<rparr>;
            st3 = st2\<lparr>generateCalls := generateCalls st2 @ [(p, opts)]\<rparr>
        in case remote p opts of
             Resolved data \<Rightarrow>
               (let new = newFloorPlan e opts data;
                    st4 = adoptNew new st3
                in (Some new, st4\<lparr>isGenerating := False\<rparr>))
           | Rejected \<Rightarrow>
               (let st4 = st3\<lparr>error := Some generateFailedMessage\<rparr>
                in if devMode e
                   then (let demo = demoFloorPlan e p opts;
                             st5 = adoptNew demo st4
                         in (Some demo, st5\<lparr>isGenerating := False\<rparr>))
                   else (None, st4\<lparr>isGenerating := False\<rparr>)))"

subsection \<open>\<open>saveFloorPlan\<close> and \<open>deleteFloorPlan\<close>\<close>

text \<open>\<open>currentPlan?.id === id\<close>\<close>

definition currentHasId :: "state \<Rightarrow> string \<Rightarrow> bool" where
  "currentHasId st i = (case currentPlan st of None \<Rightarrow> False | Some c \<Rightarrow> plan_id c = i)"

definition saveFloorPlan :: "floorPlan \<Rightarrow> state \<Rightarrow> floorPlan option \<times> state" where
  "saveFloorPlan plan st =
     (let st1 = st\<lparr>isLoading := True\<rparr>;
          st2 = st1\<lparr>error := None\<rparr>;
          st3 = setFloorPlans
                  (map (\<lambda>p. if plan_id p = plan_id plan then plan else p) (floorPlans st2)) st2;
          st4 = (if currentHasId st3 (plan_id plan) then st3\<lparr>currentPlan := Some plan\<rparr> else st3)
      in (Some plan, st4\<lparr>isLoading := False\<rparr>))"

definition deleteFloorPlan :: "string \<Rightarrow> state \<Rightarrow> bool \<times> state" where
  "deleteFloorPlan i st =
     (let st1 = st\<lparr>isLoading := True\<rparr>;
          st2 = st1\<lparr>error := None\<rparr>;
          st3 = setFloorPlans (filter (\<lambda>p. plan_id p \<noteq> i) (floorPlans st2)) st2;
          st4 = (if currentHasId st3 i then st3\<lparr>currentPlan := None\<rparr> else st3)
      in (True, st4\<lparr>isLoading := False\<rparr>))"

subsection \<open>The operations as the caller sees them\<close>

text \<open>
  Each operation of the hook followed by the effects of the render it causes: the
  mirror effect runs when the operation has called \<open>setFloorPlans\<close>.
\<close>

definition initialize :: "listOutcome \<Rightarrow> state \<Rightarrow> exn option \<times> state" where
  "initialize outcome st =
     (case loadFloorPlans outcome st of (raised, st1) \<Rightarrow> (raised, mirrorEffect st1))"

definition generate ::
  "(string \<Rightarrow> options \<Rightarrow> generateOutcome) \<Rightarrow> env \<Rightarrow> string \<Rightarrow> options \<Rightarrow> state
     \<Rightarrow> floorPlan option \<times> state" where
  "generate remote e p opts st =
     (case generateFloorPlan remote e p opts st of (r, st1) \<Rightarrow> (r, mirrorEffect st1))"

definition save :: "floorPlan \<Rightarrow> state \<Rightarrow> floorPlan option \<times> state" where
  "save plan st = (case saveFloorPlan plan st of (r, st1) \<Rightarrow> (r, mirrorEffect st1))"

definition delete :: "string \<Rightarrow> state \<Rightarrow> bool \<times> state" where
  "delete i st = (case deleteFloorPlan i st of (r, st1) \<Rightarrow> (r, mirrorEffect st1))"

subsection \<open>Sample values\<close>

definition samplePlan :: "string \<Rightarrow> floorPlan" where
  "samplePlan i =
     \<lparr>plan_id = i, prompt = ''two bedrooms'', imageUrl = ''/images/plan.png'',
      createdAt = ''2025-01-01T00:00:00.000Z'',
      parameters = \<lparr>numInferenceSteps = 50, guidanceScale = 7.5, seed = 42\<rparr>,
      generationTime = 2, name = None\<rparr>"

definition sampleResponse :: response where
  "sampleResponse =
     \<lparr>r_id = ''srv-1'', r_prompt = ''a studio'', r_imageUrl = ''/images/srv-1.png'',
      r_createdAt = None, r_parameters = None, r_generationTime = None\<rparr>"

definition sampleEnv :: env where
  "sampleEnv = \<lparr>devMode = False, nowIso = ''2025-01-02T00:00:00.000Z'',
                 nowMs = ''1735776000000'', randomSeed = 7\<rparr>"

definition noOptions :: options where
  "noOptions = \<lparr>opt_numInferenceSteps = None, opt_guidanceScale = None, opt_seed = None\<rparr>"


subsection \<open>The operations as sequences of writes\<close>

text \<open>
  The order in which an operation writes: every call of a state setter, every awaited
  remote call and every read of the store, in the order of the source.  The functional
  updates of \<open>setFloorPlans\<close> are the steps \<open>PrependPlan\<close>
  (\<open>(prev) => [p, ...prev]\<close>), \<open>ReplacePlan\<close> (\<open>prev.map(...)\<close>) and \<open>RemovePlan\<close>
  (\<open>prev.filter(...)\<close>); \<open>AdoptPlans\<close> is \<open>setFloorPlans(list)\<close>.  \<open>run\<close> performs a
  sequence of steps, so \<open>run (take k steps) st\<close> is the state after the first \<open>k\<close>
  steps of an operation.
\<close>

datatype step =
    SetIsLoading bool
  | SetIsGenerating bool
  | SetError "string option"
  | SetCurrentPlan "floorPlan option"
  | AdoptPlans "floorPlan list"
  | PrependPlan floorPlan
  | ReplacePlan floorPlan
  | RemovePlan string
  | AwaitGetFloorPlans
  | AwaitGenerate string options
  | ReadStore

fun applyStep :: "step \<Rightarrow> state \<Rightarrow> state" where
  "applyStep (SetIsLoading b) st = st\<lparr>isLoading := b\<rparr>"
| "applyStep (SetIsGenerating b) st = st\<lparr>isGenerating := b\<rparr>"
| "applyStep (SetError e) st = st\<lparr>error := e\<rparr>"
| "applyStep (SetCurrentPlan c) st = st\<lparr>currentPlan := c\<rparr>"
| "applyStep (AdoptPlans ps) st = setFloorPlans ps st"
| "applyStep (PrependPlan p) st = setFloorPlans (p # floorPlans st) st"
| "applyStep (ReplacePlan plan) st =
     setFloorPlans (map (\<lambda>p. if plan_id p = plan_id plan then plan else p) (floorPlans st)) st"
| "applyStep (RemovePlan i) st = setFloorPlans (filter (\<lambda>p. plan_id p \<noteq> i) (floorPlans st)) st"
| "applyStep AwaitGetFloorPlans st = st"
| "applyStep (AwaitGenerate p opts) st = st\<lparr>generateCalls := generateCalls st @ [(p, opts)]\<rparr>"
| "applyStep ReadStore st = st"

fun run :: "step list \<Rightarrow> state \<Rightarrow> state" where
  "run [] st = st"
| "run (a # as) st = run as (applyStep a st)"







section \<open>Facts about the extractor\<close>

lemma toUpperCase_letters [simp]:
  "toUpperCase (CHR ''a'') = CHR ''A''" "toUpperCase (CHR ''b'') = CHR ''B''"
  "toUpperCase (CHR ''d'') = CHR ''D''" "toUpperCase (CHR ''e'') = CHR ''E''"
  "toUpperCase (CHR ''f'') = CHR ''F''" "toUpperCase (CHR ''h'') = CHR ''H''"
  "toUpperCase (CHR ''i'') = CHR ''I''" "toUpperCase (CHR ''m'') = CHR ''M''"
  "toUpperCase (CHR ''n'') = CHR ''N''" "toUpperCase (CHR ''o'') = CHR ''O''"
  "toUpperCase (CHR ''r'') = CHR ''R''" "toUpperCase (CHR ''s'') = CHR ''S''"
  "toUpperCase (CHR ''t'') = CHR ''T''" "toUpperCase (CHR ''u'') = CHR ''U''"
  "toUpperCase (CHR ''v'') = CHR ''V''" "toUpperCase (CHR ''w'') = CHR ''W''"
  by (simp_all add: toUpperCase_def)

lemma isDigit_literals [simp]:
  "\<not> isDigit (CHR '' '')" "isDigit (CHR ''3'')"
  by (simp_all add: isDigit_def)

lemma isSpace_literals [simp]:
  "isSpace (CHR '' '')" "\<not> isSpace (CHR ''b'')" "\<not> isSpace (CHR ''t'')"
  "\<not> isSpace (CHR ''w'')" "\<not> isSpace (CHR ''o'')" "\<not> isSpace (CHR ''a'')"
  by (simp_all add: isSpace_def)

subsection \<open>The leftmost match\<close>

text \<open>
  When the pattern matches at no position inside \<open>pre\<close>, the search in \<open>pre @ s\<close> is
  the search in \<open>s\<close>.
\<close>

lemma search_skip:
  "(\<forall>i<length pre. m (drop i (pre @ s)) = None) \<Longrightarrow>
   searchFrom m (pre @ s) = searchFrom m s"
proof (induction pre)
  case Nil
  then show ?case by simp
next
  case (Cons a pre)
  from Cons.prems have here: "m (a # pre @ s) = None"
    by fastforce
  have later: "\<forall>i<length pre. m (drop i (pre @ s)) = None"
  proof (intro allI impI)
    fix i
    assume "i < length pre"
    then have "Suc i < length (a # pre)" by simp
    with Cons.prems have "m (drop (Suc i) ((a # pre) @ s)) = None" by blast
    then show "m (drop i (pre @ s)) = None" by simp
  qed
  from here Cons.IH [OF later] show ?case by simp
qed

lemma all_below_list: "(\<forall>i<n. P i) = list_all P [0..<n]"
  by (auto simp add: list_all_iff)

subsection \<open>One room type does not disturb another\<close>

lemma roomTypeStep_other: "t \<noteq> k \<Longrightarrow> roomTypeStep p res t k = res k"
  by (simp add: roomTypeStep_def Let_def split: option.splits)

lemma roomTypeStep_counted:
  "numericCount t p = Some n \<Longrightarrow> n \<noteq> 0 \<Longrightarrow> roomTypeStep p res t t = Some n"
  by (simp add: roomTypeStep_def falsy_def)

lemma foldl_step_other:
  "k \<notin> set ts \<Longrightarrow> foldl (roomTypeStep p) res ts k = res k"
  by (induction ts arbitrary: res) (auto simp add: roomTypeStep_other)

lemma foldl_step_counted:
  "distinct ts \<Longrightarrow> t \<in> set ts \<Longrightarrow> numericCount t p = Some n \<Longrightarrow> n \<noteq> 0 \<Longrightarrow>
   foldl (roomTypeStep p) res ts t = Some n"
proof (induction ts arbitrary: res)
  case Nil
  then show ?case by simp
next
  case (Cons a ts)
  show ?case
  proof (cases "a = t")
    case True
    with Cons.prems show ?thesis
      by (simp add: foldl_step_other roomTypeStep_counted)
  next
    case False
    with Cons show ?thesis by simp
  qed
qed

lemma foldl_step_untouched:
  "list_all (\<lambda>t. numericCount t p = None \<and> \<not> testBare None t p) ts \<Longrightarrow>
   foldl (roomTypeStep p) res ts = res"
  by (induction ts arbitrary: res) (simp_all add: roomTypeStep_def)

lemma roomTypes_distinct: "distinct roomTypes"
  by (simp add: roomTypes_def)

lemma extract_counted:
  assumes "p \<noteq> []" and "t \<in> set roomTypes" and "numericCount t p = Some n" and "n \<noteq> 0"
  shows "extractRoomInfo p t = Some n"
  using assms foldl_step_counted [OF roomTypes_distinct]
  by (simp add: extractRoomInfo_def)

lemma roomTypeStep_own:
  "roomTypeStep p res t t =
     (case numericCount t p of
        Some n \<Rightarrow> if n = 0 \<and> testBare None t p then Some 1 else Some n
      | None \<Rightarrow> if falsy (res t) \<and> testBare None t p then Some 1 else res t)"
  by (simp add: roomTypeStep_def falsy_def split: option.splits)

lemma roomTypeStep_same:
  "res t = res' t \<Longrightarrow> roomTypeStep p res t t = roomTypeStep p res' t t"
  by (auto simp add: roomTypeStep_own split: option.splits)

lemma foldl_step_own:
  "distinct ts \<Longrightarrow> t \<in> set ts \<Longrightarrow>
   foldl (roomTypeStep p) res ts t = roomTypeStep p res t t"
proof (induction ts arbitrary: res)
  case Nil
  then show ?case by simp
next
  case (Cons a ts)
  show ?case
  proof (cases "a = t")
    case True
    with Cons.prems show ?thesis
      by (simp add: foldl_step_other)
  next
    case False
    then have "roomTypeStep p res a t = res t"
      by (rule roomTypeStep_other)
    then have "roomTypeStep p (roomTypeStep p res a) t t = roomTypeStep p res t t"
      by (rule roomTypeStep_same)
    moreover have "foldl (roomTypeStep p) (roomTypeStep p res a) ts t
        = roomTypeStep p (roomTypeStep p res a) t t"
      using False Cons by simp
    ultimately show ?thesis by simp
  qed
qed

text \<open>
  The count of one room type in the result, in terms of the two numeric rules and the
  bare-word test: a count 0 from a numeric rule is treated like no count at all.
\<close>

lemma extract_characterised:
  assumes "p \<noteq> []" and "t \<in> set roomTypes"
  shows "extractRoomInfo p t =
     (case numericCount t p of
        Some n \<Rightarrow> if n = 0 \<and> testBare None t p then Some 1 else Some n
      | None \<Rightarrow> if testBare None t p then Some 1 else None)"
  using assms foldl_step_own [OF roomTypes_distinct, of t p Map.empty]
  by (simp add: extractRoomInfo_def roomTypeStep_own falsy_def)

subsection \<open>The phrases of the examples\<close>

lemma three_bedrooms_capture:
  "searchFrom (matchDigitsAt ''bedroom'') (''3 bedrooms'' @ post) = Some ''3''"
  by (simp add: matchDigitsAt_def)

lemma convert_three: "convertCount ''3'' = 3"
  by (simp add: convertCount_def isNaN_def parseInt_def digitValue_def)

lemma numeric_three_bedrooms:
  assumes "\<forall>i<length pre. matchDigitsAt ''bedroom'' (drop i (pre @ ''3 bedrooms'' @ post)) = None"
  shows "numericCount ''bedroom'' (pre @ ''3 bedrooms'' @ post) = Some 3"
proof -
  have "searchFrom (matchDigitsAt ''bedroom'') (pre @ ''3 bedrooms'' @ post) = Some ''3''"
    using search_skip [OF assms] three_bedrooms_capture [of post] by simp
  then show ?thesis
    by (simp add: numericCount_def patterns_def convert_three)
qed

lemma two_bathrooms_capture:
  "searchFrom (matchWordsAt ''bathroom'') (''two bathrooms'' @ post) = Some ''two''"
  by (simp add: matchWordsAt_def numberWords_def matchWordAt_def)

lemma convert_two: "convertCount ''two'' = 2"
  by (simp add: convertCount_def isNaN_def isDigit_def textToNumber_def toLowerCase_def)

lemma numeric_two_bathrooms:
  assumes "searchFrom (matchDigitsAt ''bathroom'') (pre @ ''two bathrooms'' @ post) = None"
    and "\<forall>i<length pre. matchWordsAt ''bathroom'' (drop i (pre @ ''two bathrooms'' @ post)) = None"
  shows "numericCount ''bathroom'' (pre @ ''two bathrooms'' @ post) = Some 2"
proof -
  have "searchFrom (matchWordsAt ''bathroom'') (pre @ ''two bathrooms'' @ post) = Some ''two''"
    using search_skip [OF assms(2)] two_bathrooms_capture [of post] by simp
  with assms(1) show ?thesis
    by (simp add: numericCount_def patterns_def convert_two)
qed

lemma garage_others:
  "list_all (\<lambda>t. numericCount t ''garage'' = None \<and> \<not> testBare None t ''garage'')
     (butlast roomTypes)"
  by code_simp

lemma garage_own:
  "numericCount ''garage'' ''garage'' = None \<and> testBare None ''garage'' ''garage''"
  by code_simp

lemma garage_alone: "extractRoomInfo ''garage'' = [''garage'' \<mapsto> 1]"
proof -
  have split: "roomTypes = butlast roomTypes @ [''garage'']"
    by (simp add: roomTypes_def)
  have "foldl (roomTypeStep ''garage'') Map.empty roomTypes
          = roomTypeStep ''garage'' Map.empty ''garage''"
    using foldl_step_untouched [OF garage_others, of Map.empty]
    by (subst split) (simp del: butlast.simps)
  also have "\<dots> = [''garage'' \<mapsto> 1]"
    using garage_own by (simp add: roomTypeStep_def falsy_def)
  finally show ?thesis
    by (simp add: extractRoomInfo_def)
qed

section \<open>The claims about the extractor\<close>

text \<open>
  C7.  The claim: the two numeric rules are tried in order, the first that matches gives
  the count, and the default 1 of a bare mention is used only when neither numeric rule
  matched, so that a digit 0 in front of the room type gives the count 0.

  The code tests \<open>!result[type]\<close> before the bare-word default, and the number 0 is
  falsy: on \<open>0 bedroom\<close> the digits rule matches and sets the count 0, and the bare-word
  test then overwrites it with 1.  (On \<open>0 bedrooms\<close> the count stays 0, because
  \<open>\bbedroom\b\<close> does not match in front of the plural \<open>s\<close>.)  Lemma
  \<open>extract_characterised\<close> gives the count for every prompt.
\<close>

theorem zero_count_overwritten:
  "numericCount ''bedroom'' ''0 bedroom'' = Some 0
   \<and> extractRoomInfo ''0 bedroom'' ''bedroom'' = Some 1
   \<and> extractRoomInfo ''0 bedrooms'' ''bedroom'' = Some 0"
  by code_simp

text \<open>
  C8, as amended.
  \<^item> A prompt \<open>pre + "3 bedrooms" + post\<close> in which the digits rule for \<open>bedroom\<close>
    matches at no position inside \<open>pre\<close> maps \<open>bedroom\<close> to 3.
  \<^item> A prompt \<open>pre + "two bathrooms" + post\<close> in which the digits rule for \<open>bathroom\<close>
    matches nowhere, and the number-word rule for \<open>bathroom\<close> matches at no position
    inside \<open>pre\<close>, maps \<open>bathroom\<close> to 2.
  \<^item> The prompt \<open>garage\<close> maps \<open>garage\<close> to 1, and holds no other entry.
  \<^item> The empty prompt gives the empty mapping.
\<close>

theorem extract_examples:
  "((\<forall>i<length pre. matchDigitsAt ''bedroom'' (drop i (pre @ ''3 bedrooms'' @ post)) = None) \<longrightarrow>
      extractRoomInfo (pre @ ''3 bedrooms'' @ post) ''bedroom'' = Some 3)
   \<and> (searchFrom (matchDigitsAt ''bathroom'') (pre @ ''two bathrooms'' @ post) = None
       \<and> (\<forall>i<length pre. matchWordsAt ''bathroom'' (drop i (pre @ ''two bathrooms'' @ post)) = None)
       \<longrightarrow> extractRoomInfo (pre @ ''two bathrooms'' @ post) ''bathroom'' = Some 2)
   \<and> extractRoomInfo ''garage'' = [''garage'' \<mapsto> 1]
   \<and> extractRoomInfo [] = Map.empty"
proof -
  have bed: "''bedroom'' \<in> set roomTypes" and bath: "''bathroom'' \<in> set roomTypes"
    by (simp_all add: roomTypes_def)
  have "extractRoomInfo (pre @ ''3 bedrooms'' @ post) ''bedroom'' = Some 3"
    if "\<forall>i<length pre. matchDigitsAt ''bedroom'' (drop i (pre @ ''3 bedrooms'' @ post)) = None"
    using extract_counted [OF _ bed numeric_three_bedrooms [OF that]] by simp
  moreover have "extractRoomInfo (pre @ ''two bathrooms'' @ post) ''bathroom'' = Some 2"
    if "searchFrom (matchDigitsAt ''bathroom'') (pre @ ''two bathrooms'' @ post) = None"
      and "\<forall>i<length pre. matchWordsAt ''bathroom'' (drop i (pre @ ''two bathrooms'' @ post)) = None"
    using extract_counted [OF _ bath numeric_two_bathrooms [OF that]] by simp
  moreover have "extractRoomInfo [] = Map.empty"
    by (simp add: extractRoomInfo_def)
  ultimately show ?thesis
    using garage_alone by blast
qed

theorem extract_examples_witness:
  "list_all (\<lambda>i. matchDigitsAt ''bedroom'' (drop i (''1 kitchen '' @ ''3 bedrooms'' @ '', two bathrooms'')) = None)
     [0..<length ''1 kitchen '']
   \<and> extractRoomInfo ''1 kitchen 3 bedrooms, two bathrooms'' ''bedroom'' = Some 3
   \<and> searchFrom (matchDigitsAt ''bathroom'') (''1 kitchen 3 bedrooms, '' @ ''two bathrooms'' @ []) = None
   \<and> list_all (\<lambda>i. matchWordsAt ''bathroom'' (drop i (''1 kitchen 3 bedrooms, '' @ ''two bathrooms'' @ [])) = None)
     [0..<length ''1 kitchen 3 bedrooms, '']
   \<and> extractRoomInfo ''1 kitchen 3 bedrooms, two bathrooms'' ''bathroom'' = Some 2"
proof -
  have bed: "list_all (\<lambda>i. matchDigitsAt ''bedroom''
        (drop i (''1 kitchen '' @ ''3 bedrooms'' @ '', two bathrooms'')) = None)
      [0..<length ''1 kitchen '']"
    by code_simp
  have digits: "searchFrom (matchDigitsAt ''bathroom'')
      (''1 kitchen 3 bedrooms, '' @ ''two bathrooms'' @ []) = None"
    by code_simp
  have bath: "list_all (\<lambda>i. matchWordsAt ''bathroom''
        (drop i (''1 kitchen 3 bedrooms, '' @ ''two bathrooms'' @ [])) = None)
      [0..<length ''1 kitchen 3 bedrooms, '']"
    by code_simp
  from bed digits bath show ?thesis
    using extract_examples [of "''1 kitchen ''" "'', two bathrooms''"]
      extract_examples [of "''1 kitchen 3 bedrooms, ''" "[]"]
    by (simp add: all_below_list)
qed

text \<open>
  C8 as stated fails: \<open>13 bedrooms\<close> contains \<open>3 bedrooms\<close> and maps \<open>bedroom\<close> to 13;
  \<open>one bathroom, two bathrooms\<close> contains \<open>two bathrooms\<close> and maps \<open>bathroom\<close> to 1;
  \<open>two bathrooms, 3 bathrooms\<close> contains \<open>two bathrooms\<close> and maps \<open>bathroom\<close> to 3,
  because the digits rule is tried first.
\<close>

theorem leftmost_match_counterexample:
  "''13 bedrooms'' = ''1'' @ ''3 bedrooms''
   \<and> extractRoomInfo ''13 bedrooms'' ''bedroom'' = Some 13
   \<and> ''one bathroom, two bathrooms'' = ''one bathroom, '' @ ''two bathrooms''
   \<and> extractRoomInfo ''one bathroom, two bathrooms'' ''bathroom'' = Some 1
   \<and> ''two bathrooms, 3 bathrooms'' = ''two bathrooms'' @ '', 3 bathrooms''
   \<and> extractRoomInfo ''two bathrooms, 3 bathrooms'' ''bathroom'' = Some 3"
  by code_simp

section \<open>Facts about the coordinator\<close>

lemmas load_defs = loadFloorPlans_def loadTry_def loadCatch_def loadSaved_def
lemmas generate_defs = generateFloorPlan_def adoptNew_def

lemma trim_blank: "trim [] = []" "trim ''   '' = []"
  by (simp_all add: trim_def isSpace_def)

lemma trim_studio: "trim ''a studio'' \<noteq> []"
  by (simp add: trim_def isSpace_def)

text \<open>The mirror effect writes the collection exactly when it changed and is not empty.\<close>

lemma mirrorEffect_changed:
  "plansChanged st \<Longrightarrow>
   floorPlans (mirrorEffect st) = floorPlans st
   \<and> storage (mirrorEffect st)
       = (if floorPlans st = [] then storage st else Some (Serialized (floorPlans st)))"
  by (simp add: mirrorEffect_def)

text \<open>What a successful \<open>generateFloorPlan\<close> leaves behind, before the effects.\<close>

lemma generateFloorPlan_resolved:
  assumes "trim p \<noteq> []" and "remote p opts = Resolved data"
  shows "generateFloorPlan remote e p opts st =
           (Some (newFloorPlan e opts data),
            st\<lparr>floorPlans := newFloorPlan e opts data # floorPlans st,
               currentPlan := Some (newFloorPlan e opts data),
               isGenerating := False, error := None,
               generateCalls := generateCalls st @ [(p, opts)],
               plansChanged := True\<rparr>)"
  using assms by (simp add: generate_defs setFloorPlans_def Let_def)

lemma generateFloorPlan_rejected:
  assumes "trim p \<noteq> []" and "remote p opts = Rejected"
  shows "generateFloorPlan remote e p opts st =
           (if devMode e
            then (Some (demoFloorPlan e p opts),
                  st\<lparr>floorPlans := demoFloorPlan e p opts # floorPlans st,
                     currentPlan := Some (demoFloorPlan e p opts),
                     isGenerating := False, error := Some generateFailedMessage,
                     generateCalls := generateCalls st @ [(p, opts)],
                     plansChanged := True\<rparr>)
            else (None,
                  st\<lparr>isGenerating := False, error := Some generateFailedMessage,
                     generateCalls := generateCalls st @ [(p, opts)]\<rparr>))"
  using assms by (simp add: generate_defs setFloorPlans_def Let_def)

lemma saveFloorPlan_plans:
  "floorPlans (snd (saveFloorPlan plan st))
     = map (\<lambda>q. if plan_id q = plan_id plan then plan else q) (floorPlans st)
   \<and> plansChanged (snd (saveFloorPlan plan st))"
  by (simp add: saveFloorPlan_def setFloorPlans_def Let_def)

lemma deleteFloorPlan_plans:
  "floorPlans (snd (deleteFloorPlan i st)) = filter (\<lambda>q. plan_id q \<noteq> i) (floorPlans st)
   \<and> plansChanged (snd (deleteFloorPlan i st))"
  by (simp add: deleteFloorPlan_def setFloorPlans_def Let_def)

subsection \<open>The sequences of writes\<close>











section \<open>The claims about the coordinator\<close>

text \<open>
  C1.  For every prompt that is not empty after trimming and every options value, if the
  remote call resolves with a response then \<open>generateFloorPlan\<close> returns the plan built
  from it, that plan is element 0 of the collection and the current plan, and the
  write to the store that follows (the mirror effect) stores the collection, which
  holds the plan's id.
\<close>

theorem generate_success:
  assumes "trim p \<noteq> []" and "remote p opts = Resolved data"
  shows "let r = generate remote e p opts st; new = newFloorPlan e opts data
         in fst r = Some new
            \<and> floorPlans (snd r) = new # floorPlans st
            \<and> floorPlans (snd r) ! 0 = new
            \<and> currentPlan (snd r) = Some new
            \<and> storage (snd r) = Some (Serialized (floorPlans (snd r)))
            \<and> plan_id new \<in> plan_id ` set (floorPlans (snd r))"
proof -
  note run = generateFloorPlan_resolved [of p remote opts data e st, OF assms]
  have "generate remote e p opts st =
          (Some (newFloorPlan e opts data),
           mirrorEffect (snd (generateFloorPlan remote e p opts st)))"
    using run by (simp add: generate_def)
  then show ?thesis
    using run by (simp add: mirrorEffect_def)
qed

theorem generate_success_witness:
  "trim ''a studio'' \<noteq> []
   \<and> fst (generate (\<lambda>p opts. Resolved sampleResponse) sampleEnv ''a studio'' noOptions
            (initialState None)) = Some (newFloorPlan sampleEnv noOptions sampleResponse)
   \<and> plan_id (newFloorPlan sampleEnv noOptions sampleResponse) = ''srv-1''
   \<and> storage (snd (generate (\<lambda>p opts. Resolved sampleResponse) sampleEnv ''a studio'' noOptions
            (initialState None)))
       = Some (Serialized [newFloorPlan sampleEnv noOptions sampleResponse])"
  using generate_success [of "''a studio''" "\<lambda>p opts. Resolved sampleResponse" noOptions
      sampleResponse sampleEnv "initialState None"] trim_studio
  by (simp add: initialState_def Let_def newFloorPlan_def sampleResponse_def)

text \<open>
  C2.  The claim: whatever text is stored under the key, loading it never raises, and
  malformed content leads to an empty collection without an exception leaving
  \<open>initialize\<close>.

  In the code \<open>JSON.parse\<close> is guarded by the \<open>try\<close> block only: when the server call
  fails, or when it resolves without a plan list, the \<open>catch\<close> handler parses the stored
  text again, outside any guard.  On malformed text the \<open>SyntaxError\<close> leaves
  \<open>loadFloorPlans\<close> after the \<open>finally\<close> block, and \<open>setError\<close> is never reached.
  The collection does stay empty.
\<close>

theorem malformed_store_raises:
  "fst (loadFloorPlans ListRejected (initialState (Some Malformed))) = Some SyntaxError
   \<and> fst (loadFloorPlans (ListResolved None) (initialState (Some Malformed))) = Some SyntaxError
   \<and> error (snd (loadFloorPlans ListRejected (initialState (Some Malformed)))) = None
   \<and> floorPlans (snd (loadFloorPlans ListRejected (initialState (Some Malformed)))) = []"
  by (simp add: load_defs initialState_def)

text \<open>
  C3, as amended.  After an operation that has called \<open>setFloorPlans\<close> and left the
  collection non-empty (the adoption of a list by \<open>initialize\<close>, from the server or from
  the store; the prepend of \<open>generate\<close>; the replace of \<open>save\<close>; the removal of
  \<open>delete\<close>), the store holds the serialization of exactly the collection.  When the
  operation leaves the collection empty, the guard \<open>floorPlans.length > 0\<close> of the
  mirror effect skips the write and the store keeps what it held.
\<close>

theorem mirror_after_change:
  "(let st' = snd (initialize (ListResolved (Some ps)) st)
    in floorPlans st' = ps
       \<and> storage st' = (if ps = [] then storage st else Some (Serialized ps)))
   \<and> (storage st = Some (Serialized ps) \<and> outcome \<in> {ListRejected, ListResolved None} \<longrightarrow>
       (let st' = snd (initialize outcome st)
        in floorPlans st' = ps
           \<and> storage st' = (if ps = [] then storage st else Some (Serialized ps))))
   \<and> (trim p \<noteq> [] \<and> (remote p opts \<noteq> Rejected \<or> devMode e) \<longrightarrow>
       (let st' = snd (generate remote e p opts st)
        in floorPlans st' \<noteq> [] \<and> storage st' = Some (Serialized (floorPlans st'))))
   \<and> (let st' = snd (save plan st)
      in storage st'
           = (if floorPlans st' = [] then storage st else Some (Serialized (floorPlans st'))))
   \<and> (let st' = snd (delete i st)
      in storage st'
           = (if floorPlans st' = [] then storage st else Some (Serialized (floorPlans st'))))"
proof -
  have adopt: "floorPlans (snd (initialize (ListResolved (Some ps)) st)) = ps
      \<and> storage (snd (initialize (ListResolved (Some ps)) st))
          = (if ps = [] then storage st else Some (Serialized ps))"
    by (simp add: initialize_def load_defs setFloorPlans_def mirrorEffect_def)
  have fallback: "floorPlans (snd (initialize outcome st)) = ps
      \<and> storage (snd (initialize outcome st))
          = (if ps = [] then storage st else Some (Serialized ps))"
    if "storage st = Some (Serialized ps)" and "outcome \<in> {ListRejected, ListResolved None}"
    using that
    by (auto simp add: initialize_def load_defs setFloorPlans_def mirrorEffect_def)
  have gen: "floorPlans (snd (generate remote e p opts st)) \<noteq> []
      \<and> storage (snd (generate remote e p opts st))
          = Some (Serialized (floorPlans (snd (generate remote e p opts st))))"
    if "trim p \<noteq> []" and "remote p opts \<noteq> Rejected \<or> devMode e"
  proof (cases "remote p opts")
    case (Resolved data)
    show ?thesis
      using generateFloorPlan_resolved [of p remote opts data e st, OF that(1) Resolved]
      by (simp add: generate_def mirrorEffect_def)
  next
    case Rejected
    with that(2) have "devMode e" by simp
    then show ?thesis
      using generateFloorPlan_rejected [of p remote opts e st, OF that(1) Rejected]
      by (simp add: generate_def mirrorEffect_def)
  qed
  have sv: "storage (snd (save plan st))
      = (if floorPlans (snd (save plan st)) = [] then storage st
         else Some (Serialized (floorPlans (snd (save plan st)))))"
    using saveFloorPlan_plans [of plan st]
      mirrorEffect_changed [of "snd (saveFloorPlan plan st)"]
    by (simp add: save_def split_beta saveFloorPlan_def setFloorPlans_def Let_def)
  have del: "storage (snd (delete i st))
      = (if floorPlans (snd (delete i st)) = [] then storage st
         else Some (Serialized (floorPlans (snd (delete i st)))))"
    using deleteFloorPlan_plans [of i st]
      mirrorEffect_changed [of "snd (deleteFloorPlan i st)"]
    by (simp add: delete_def split_beta deleteFloorPlan_def setFloorPlans_def Let_def)
  from adopt fallback gen sv del show ?thesis
    unfolding Let_def by blast
qed

theorem mirror_after_change_witness:
  "storage (initialState (Some (Serialized [samplePlan ''a'']))) = Some (Serialized [samplePlan ''a''])
   \<and> trim ''a studio'' \<noteq> []
   \<and> floorPlans (snd (initialize ListRejected (initialState (Some (Serialized [samplePlan ''a''])))))
       = [samplePlan ''a'']
   \<and> storage (snd (generate (\<lambda>p opts. Resolved sampleResponse) sampleEnv ''a studio'' noOptions
        (initialState (Some (Serialized [samplePlan ''a''])))))
       = Some (Serialized [newFloorPlan sampleEnv noOptions sampleResponse])
   \<and> storage (snd (delete ''a'' (initialState (Some (Serialized [samplePlan ''a''])))))
       = Some (Serialized [samplePlan ''a''])"
  using mirror_after_change [of "[samplePlan ''a'']" "initialState (Some (Serialized [samplePlan ''a'']))"
      ListRejected "''a studio''" "\<lambda>p opts. Resolved sampleResponse" noOptions sampleEnv
      "samplePlan ''a''" "''a''"] trim_studio
  by (simp add: initialState_def Let_def generate_def generate_defs setFloorPlans_def
      mirrorEffect_def delete_def deleteFloorPlan_def currentHasId_def)

text \<open>
  C3 as stated fails on the delete that removes the last plan: the collection is empty
  and the store still holds the deleted plan.
\<close>

theorem empty_not_mirrored_counterexample:
  "floorPlans (snd (delete ''only''
      ((initialState (Some (Serialized [samplePlan ''only''])))\<lparr>floorPlans := [samplePlan ''only'']\<rparr>))) = []
   \<and> storage (snd (delete ''only''
      ((initialState (Some (Serialized [samplePlan ''only''])))\<lparr>floorPlans := [samplePlan ''only'']\<rparr>)))
      = Some (Serialized [samplePlan ''only''])
   \<and> Some (Serialized [samplePlan ''only'']) \<noteq> Some (Serialized [])"
  by (simp add: delete_def deleteFloorPlan_def mirrorEffect_def setFloorPlans_def Let_def
      currentHasId_def samplePlan_def initialState_def)

text \<open>
  C4, as amended.  \<open>deleteFloorPlan\<close> removes exactly the entries whose id is the
  argument, and clears the current plan when the current plan has that id; when no plan
  has the id the collection is unchanged.  It returns \<open>true\<close> in every case: the source
  returns \<open>false\<close> only from its \<open>catch\<close> handler, and never looks whether an entry
  was removed.
\<close>

theorem delete_removes:
  "fst (deleteFloorPlan i st) = True
   \<and> floorPlans (snd (deleteFloorPlan i st)) = filter (\<lambda>q. plan_id q \<noteq> i) (floorPlans st)
   \<and> currentPlan (snd (deleteFloorPlan i st))
       = (if currentHasId st i then None else currentPlan st)
   \<and> (i \<notin> plan_id ` set (floorPlans st) \<longrightarrow>
        floorPlans (snd (deleteFloorPlan i st)) = floorPlans st)"
proof -
  have "filter (\<lambda>q. plan_id q \<noteq> i) (floorPlans st) = floorPlans st"
    if "i \<notin> plan_id ` set (floorPlans st)"
    using that by (auto simp add: filter_id_conv)
  then show ?thesis
    by (simp add: deleteFloorPlan_def setFloorPlans_def currentHasId_def Let_def)
qed

theorem delete_removes_witness:
  "''b'' \<notin> plan_id ` set (floorPlans ((initialState None)\<lparr>floorPlans := [samplePlan ''a'']\<rparr>))
   \<and> floorPlans (snd (deleteFloorPlan ''b'' ((initialState None)\<lparr>floorPlans := [samplePlan ''a'']\<rparr>)))
       = [samplePlan ''a'']
   \<and> floorPlans (snd (deleteFloorPlan ''a'' ((initialState None)\<lparr>floorPlans := [samplePlan ''a'']\<rparr>)))
       = []"
  using delete_removes [of "''b''" "(initialState None)\<lparr>floorPlans := [samplePlan ''a'']\<rparr>"]
    delete_removes [of "''a''" "(initialState None)\<lparr>floorPlans := [samplePlan ''a'']\<rparr>"]
  by (simp add: initialState_def samplePlan_def)

text \<open>
  C4 as stated fails: deleting an id that no plan has returns \<open>true\<close>, not \<open>false\<close>.
\<close>

theorem delete_absent_counterexample:
  "floorPlans (initialState None) = []
   \<and> fst (deleteFloorPlan ''absent'' (initialState None)) = True
   \<and> fst (deleteFloorPlan ''absent'' (initialState None)) \<noteq> False"
  by (simp add: deleteFloorPlan_def initialState_def Let_def)

text \<open>
  C5, as amended.  At start-up: a plan list from the server is adopted as the collection,
  whether or not it is empty, whatever the store holds.  When the server call throws, or
  resolves with something that has no plan list, the hook reads the store: a stored
  plan list is adopted, and the collection stays empty when the key is missing, when
  the stored text is empty, and when it cannot be decoded.  (Stored text that is
  valid JSON without being a plan list is outside this statement.)
\<close>

theorem initialize_outcomes:
  "floorPlans (snd (initialize (ListResolved (Some ps)) (initialState stored))) = ps
   \<and> (outcome \<in> {ListRejected, ListResolved None} \<longrightarrow>
        (stored = Some (Serialized saved) \<longrightarrow>
           floorPlans (snd (initialize outcome (initialState stored))) = saved)
        \<and> (stored \<in> {None, Some EmptyText, Some Malformed} \<longrightarrow>
           floorPlans (snd (initialize outcome (initialState stored))) = []))"
proof -
  have adopted: "floorPlans (snd (initialize (ListResolved (Some ps)) (initialState stored))) = ps"
    by (simp add: initialize_def load_defs setFloorPlans_def mirrorEffect_def)
  have decoded: "floorPlans (snd (initialize outcome (initialState stored))) = saved"
    if "outcome \<in> {ListRejected, ListResolved None}" and "stored = Some (Serialized saved)"
    using that
    by (auto simp add: initialize_def load_defs setFloorPlans_def initialState_def
        mirrorEffect_def)
  have unread: "floorPlans (snd (initialize outcome (initialState stored))) = []"
    if "outcome \<in> {ListRejected, ListResolved None}"
      and "stored \<in> {None, Some EmptyText, Some Malformed}"
    using that
    by (auto simp add: initialize_def load_defs setFloorPlans_def initialState_def
        mirrorEffect_def)
  from adopted decoded unread show ?thesis
    by blast
qed

theorem initialize_outcomes_witness:
  "ListRejected \<in> {ListRejected, ListResolved None}
   \<and> floorPlans (snd (initialize ListRejected
        (initialState (Some (Serialized [samplePlan ''a'', samplePlan ''b''])))))
       = [samplePlan ''a'', samplePlan ''b'']
   \<and> Some Malformed \<in> {None, Some EmptyText, Some Malformed}
   \<and> floorPlans (snd (initialize ListRejected (initialState (Some Malformed)))) = []"
  using initialize_outcomes [where ps = "[]" and outcome = ListRejected
      and stored = "Some (Serialized [samplePlan ''a'', samplePlan ''b''])"
      and saved = "[samplePlan ''a'', samplePlan ''b'']"]
    initialize_outcomes [where ps = "[]" and outcome = ListRejected
      and stored = "Some Malformed" and saved = "[]"]
  by simp

text \<open>
  C5 as stated fails on a well-formed but empty list: \<open>[]\<close> is truthy and an array, so
  it is adopted, and the two plans in the store are not read.
\<close>

theorem empty_list_adopted_counterexample:
  "floorPlans (snd (initialize (ListResolved (Some []))
       (initialState (Some (Serialized [samplePlan ''a'', samplePlan ''b'']))))) = []
   \<and> storage (snd (initialize (ListResolved (Some []))
       (initialState (Some (Serialized [samplePlan ''a'', samplePlan ''b''])))))
       = Some (Serialized [samplePlan ''a'', samplePlan ''b''])
   \<and> [] \<noteq> [samplePlan ''a'', samplePlan ''b'']"
  by (simp add: initialize_def mirrorEffect_def load_defs setFloorPlans_def initialState_def)

text \<open>
  C6.  For every prompt that is empty after trimming, \<open>generateFloorPlan\<close> sets the
  validation message, returns \<open>null\<close>, makes no call to the remote client and changes
  neither the collection nor the current plan (nor anything else but the error).
\<close>

theorem blank_prompt_rejected:
  assumes "trim p = []"
  shows "generateFloorPlan remote e p opts st = (None, st\<lparr>error := Some emptyPromptMessage\<rparr>)
       \<and> generateCalls (snd (generateFloorPlan remote e p opts st)) = generateCalls st
       \<and> floorPlans (snd (generateFloorPlan remote e p opts st)) = floorPlans st
       \<and> currentPlan (snd (generateFloorPlan remote e p opts st)) = currentPlan st
       \<and> plansChanged (snd (generateFloorPlan remote e p opts st)) = plansChanged st
       \<and> storage (snd (generateFloorPlan remote e p opts st)) = storage st"
  using assms by (simp add: generateFloorPlan_def)

theorem blank_prompt_rejected_witness:
  "trim [] = [] \<and> trim ''   '' = []
   \<and> generateFloorPlan (\<lambda>p opts. Resolved sampleResponse) sampleEnv [] noOptions (initialState None)
       = (None, (initialState None)\<lparr>error := Some emptyPromptMessage\<rparr>)
   \<and> generateCalls (snd (generateFloorPlan (\<lambda>p opts. Resolved sampleResponse) sampleEnv ''   ''
        noOptions (initialState None))) = []"
  using blank_prompt_rejected [of "[]" "\<lambda>p opts. Resolved sampleResponse" sampleEnv noOptions
      "initialState None"]
    blank_prompt_rejected [of "''   ''" "\<lambda>p opts. Resolved sampleResponse" sampleEnv noOptions
      "initialState None"] trim_blank
  by (simp add: initialState_def)

text \<open>
  C9.  Whenever \<open>generateFloorPlan\<close> contacts the remote client (the prompt is not
  blank), the flag \<open>isGenerating\<close> is false when it returns, whatever the remote call
  did and whether or not the development placeholder was built.  A blank prompt returns
  before the flag is touched, so a flag that was false at the call is false at the
  return for every prompt: with no call in flight the flag is false.
\<close>

theorem isGenerating_cleared:
  "(trim p \<noteq> [] \<longrightarrow> \<not> isGenerating (snd (generateFloorPlan remote e p opts st)))
   \<and> (\<not> isGenerating st \<longrightarrow> \<not> isGenerating (snd (generateFloorPlan remote e p opts st)))"
proof (cases "trim p = []")
  case True
  then show ?thesis by (simp add: generateFloorPlan_def)
next
  case False
  show ?thesis
  proof (cases "remote p opts")
    case (Resolved data)
    show ?thesis
      using False generateFloorPlan_resolved [of p remote opts data e st, OF False Resolved]
      by simp
  next
    case Rejected
    show ?thesis
      using False generateFloorPlan_rejected [of p remote opts e st, OF False Rejected]
      by simp
  qed
qed

theorem isGenerating_cleared_witness:
  "trim ''a studio'' \<noteq> []
   \<and> \<not> isGenerating (snd (generateFloorPlan (\<lambda>p opts. Rejected) sampleEnv ''a studio'' noOptions
          ((initialState None)\<lparr>isGenerating := True\<rparr>)))
   \<and> \<not> isGenerating (initialState None)
   \<and> \<not> isGenerating (snd (generateFloorPlan (\<lambda>p opts. Rejected) sampleEnv ''   '' noOptions
          (initialState None)))"
  using isGenerating_cleared [of "''a studio''" "\<lambda>p opts. Rejected" sampleEnv noOptions
      "(initialState None)\<lparr>isGenerating := True\<rparr>"]
    isGenerating_cleared [of "''   ''" "\<lambda>p opts. Rejected" sampleEnv noOptions "initialState None"]
    trim_studio
  by (simp add: initialState_def)




end
